theory Spec2Isabelle
  imports Complex_Main "HOL-Library.Sorting_Algorithms" "HOL-Library.Option_ord"
    "HOL-Library.List_Lexorder" "HOL-Library.Char_ord"
begin

section \<open>JSON values\<close>

text \<open>
  The asset configuration schema of the repository is a JSON document. A JSON value is
  null, a boolean, a number, a string, an array or an object; an object keeps its members
  in the order of the document, as an association list. Numbers are rationals: every JSON
  number literal is a decimal fraction.
\<close>

datatype json =
    JNull
  | JBool bool
  | JNumber rat
  | JString string
  | JArray "json list"
  | JObject "(string \<times> json) list"

section \<open>The schema document\<close>

text \<open>
  The definitions below are the schema of the JSON asset, member by member and in the
  order of the document. The entries of its \<open>definitions\<close> table are constants of their
  own; the key of the batch definition entry is the long name spelled out in
  \<open>JSONAsset\<close>, abbreviated \<open>BatchDefinition_Union\<close> as a constant name.
\<close>

definition Sorter :: json where
  "Sorter =
    JObject [
     (''title'', JString ''Sorter''),
     (''type'', JString ''object''),
     (''properties'', JObject [
       (''key'', JObject [
         (''title'', JString ''Key''),
         (''type'', JString ''string'')]),
       (''reverse'', JObject [
         (''title'', JString ''Reverse''),
         (''default'', JBool False),
         (''type'', JString ''boolean'')])]),
     (''required'', JArray [JString ''key''])]"

definition FileNamePartitionerYearly :: json where
  "FileNamePartitionerYearly =
    JObject [
     (''title'', JString ''FileNamePartitionerYearly''),
     (''type'', JString ''object''),
     (''properties'', JObject [
       (''regex'', JObject [
         (''title'', JString ''Regex''),
         (''type'', JString ''string''),
         (''format'', JString ''regex'')]),
       (''sort_ascending'', JObject [
         (''title'', JString ''Sort Ascending''),
         (''default'', JBool True),
         (''type'', JString ''boolean'')]),
       (''param_names'', JObject [
         (''title'', JString ''Param Names''),
         (''default'', JArray [JString ''year'']),
         (''type'', JString ''array''),
         (''items'', JObject [])])]),
     (''required'', JArray [JString ''regex''])]"

definition FileNamePartitionerMonthly :: json where
  "FileNamePartitionerMonthly =
    JObject [
     (''title'', JString ''FileNamePartitionerMonthly''),
     (''type'', JString ''object''),
     (''properties'', JObject [
       (''regex'', JObject [
         (''title'', JString ''Regex''),
         (''type'', JString ''string''),
         (''format'', JString ''regex'')]),
       (''sort_ascending'', JObject [
         (''title'', JString ''Sort Ascending''),
         (''default'', JBool True),
         (''type'', JString ''boolean'')]),
       (''param_names'', JObject [
         (''title'', JString ''Param Names''),
         (''default'', JArray [JString ''year'', JString ''month'']),
         (''type'', JString ''array''),
         (''items'', JObject [])])]),
     (''required'', JArray [JString ''regex''])]"

definition FileNamePartitionerDaily :: json where
  "FileNamePartitionerDaily =
    JObject [
     (''title'', JString ''FileNamePartitionerDaily''),
     (''type'', JString ''object''),
     (''properties'', JObject [
       (''regex'', JObject [
         (''title'', JString ''Regex''),
         (''type'', JString ''string''),
         (''format'', JString ''regex'')]),
       (''sort_ascending'', JObject [
         (''title'', JString ''Sort Ascending''),
         (''default'', JBool True),
         (''type'', JString ''boolean'')]),
       (''param_names'', JObject [
         (''title'', JString ''Param Names''),
         (''default'', JArray [JString ''year'', JString ''month'', JString ''day'']),
         (''type'', JString ''array''),
         (''items'', JObject [])])]),
     (''required'', JArray [JString ''regex''])]"

definition FileNamePartitionerPath :: json where
  "FileNamePartitionerPath =
    JObject [
     (''title'', JString ''FileNamePartitionerPath''),
     (''type'', JString ''object''),
     (''properties'', JObject [
       (''regex'', JObject [
         (''title'', JString ''Regex''),
         (''type'', JString ''string''),
         (''format'', JString ''regex'')]),
       (''sort_ascending'', JObject [
         (''title'', JString ''Sort Ascending''),
         (''default'', JBool True),
         (''type'', JString ''boolean'')])]),
     (''required'', JArray [JString ''regex''])]"

definition BatchDefinition_Union :: json where
  "BatchDefinition_Union =
    JObject [
     (''title'', JString ''BatchDefinition[Union[FileNamePartitionerYearly, FileNamePartitionerMonthly, FileNamePartitionerDaily, FileNamePartitionerPath]]''),
     (''description'', JString (''Configuration for a batch of data.'' @ [CHR 0x0A] @ [CHR 0x0A] @ ''References the DataAsset to be used, and any additional parameters needed to fetch the data.'')),
     (''type'', JString ''object''),
     (''properties'', JObject [
       (''id'', JObject [
         (''title'', JString ''Id''),
         (''type'', JString ''string'')]),
       (''name'', JObject [
         (''title'', JString ''Name''),
         (''type'', JString ''string'')]),
       (''partitioner'', JObject [
         (''title'', JString ''Partitioner''),
         (''anyOf'', JArray [
           JObject [
             (''$ref'', JString ''#/definitions/FileNamePartitionerYearly'')],
           JObject [
             (''$ref'', JString ''#/definitions/FileNamePartitionerMonthly'')],
           JObject [
             (''$ref'', JString ''#/definitions/FileNamePartitionerDaily'')],
           JObject [
             (''$ref'', JString ''#/definitions/FileNamePartitionerPath'')]])])]),
     (''required'', JArray [JString ''name''])]"

definition JSONAsset_properties :: "(string \<times> json) list" where
  "JSONAsset_properties = [
    (''name'', JObject [
      (''title'', JString ''Name''),
      (''type'', JString ''string'')]),
    (''type'', JObject [
      (''title'', JString ''Type''),
      (''default'', JString ''json''),
      (''enum'', JArray [JString ''json'']),
      (''type'', JString ''string'')]),
    (''id'', JObject [
      (''title'', JString ''Id''),
      (''description'', JString ''DataAsset id''),
      (''type'', JString ''string''),
      (''format'', JString ''uuid'')]),
    (''order_by'', JObject [
      (''title'', JString ''Order By''),
      (''type'', JString ''array''),
      (''items'', JObject [
        (''$ref'', JString ''#/definitions/Sorter'')])]),
    (''batch_metadata'', JObject [
      (''title'', JString ''Batch Metadata''),
      (''type'', JString ''object'')]),
    (''batch_definitions'', JObject [
      (''title'', JString ''Batch Definitions''),
      (''type'', JString ''array''),
      (''items'', JObject [
        (''$ref'', JString ''#/definitions/BatchDefinition_Union_FileNamePartitionerYearly__FileNamePartitionerMonthly__FileNamePartitionerDaily__FileNamePartitionerPath__'')])]),
    (''connect_options'', JObject [
      (''title'', JString ''Connect Options''),
      (''description'', JString ''Optional filesystem specific advanced parameters for connecting to data assets''),
      (''type'', JString ''object'')]),
    (''orient'', JObject [
      (''title'', JString ''Orient''),
      (''type'', JString ''string'')]),
    (''typ'', JObject [
      (''title'', JString ''Typ''),
      (''default'', JString ''frame''),
      (''enum'', JArray [JString ''frame'', JString ''series'']),
      (''type'', JString ''string'')]),
    (''dtype'', JObject [
      (''title'', JString ''Dtype''),
      (''type'', JString ''object'')]),
    (''convert_axes'', JObject [
      (''title'', JString ''Convert Axes'')]),
    (''convert_dates'', JObject [
      (''title'', JString ''Convert Dates''),
      (''default'', JBool True),
      (''anyOf'', JArray [
        JObject [
          (''type'', JString ''boolean'')],
        JObject [
          (''type'', JString ''array''),
          (''items'', JObject [
            (''type'', JString ''string'')])]])]),
    (''keep_default_dates'', JObject [
      (''title'', JString ''Keep Default Dates''),
      (''default'', JBool True),
      (''type'', JString ''boolean'')]),
    (''numpy'', JObject [
      (''title'', JString ''Numpy''),
      (''default'', JBool False),
      (''type'', JString ''boolean'')]),
    (''precise_float'', JObject [
      (''title'', JString ''Precise Float''),
      (''default'', JBool False),
      (''type'', JString ''boolean'')]),
    (''date_unit'', JObject [
      (''title'', JString ''Date Unit''),
      (''type'', JString ''string'')]),
    (''encoding'', JObject [
      (''title'', JString ''Encoding''),
      (''type'', JString ''string'')]),
    (''encoding_errors'', JObject [
      (''title'', JString ''Encoding Errors''),
      (''default'', JString ''strict''),
      (''type'', JString ''string'')]),
    (''lines'', JObject [
      (''title'', JString ''Lines''),
      (''default'', JBool False),
      (''type'', JString ''boolean'')]),
    (''chunksize'', JObject [
      (''title'', JString ''Chunksize''),
      (''type'', JString ''integer'')]),
    (''compression'', JObject [
      (''title'', JString ''Compression''),
      (''default'', JString ''infer''),
      (''anyOf'', JArray [
        JObject [
          (''enum'', JArray [JString ''infer'', JString ''gzip'', JString ''bz2'', JString ''zip'', JString ''xz'', JString ''zstd'', JString ''tar'']),
          (''type'', JString ''string'')],
        JObject [
          (''type'', JString ''object'')]])]),
    (''nrows'', JObject [
      (''title'', JString ''Nrows''),
      (''type'', JString ''integer'')]),
    (''storage_options'', JObject [
      (''title'', JString ''Storage Options''),
      (''type'', JString ''object'')])]"

definition JSONAsset :: json where
  "JSONAsset = JObject [
     (''title'', JString ''JSONAsset''),
     (''description'', JString ''Convert a JSON string to pandas object.''),
     (''type'', JString ''object''),
     (''properties'', JObject JSONAsset_properties),
     (''required'', JArray [JString ''name'']),
     (''additionalProperties'', JBool False),
     (''definitions'', JObject [
       (''Sorter'', Sorter),
       (''FileNamePartitionerYearly'', FileNamePartitionerYearly),
       (''FileNamePartitionerMonthly'', FileNamePartitionerMonthly),
       (''FileNamePartitionerDaily'', FileNamePartitionerDaily),
       (''FileNamePartitionerPath'', FileNamePartitionerPath),
       (''BatchDefinition_Union_FileNamePartitionerYearly__FileNamePartitionerMonthly__FileNamePartitionerDaily__FileNamePartitionerPath__'', BatchDefinition_Union)])]"

section \<open>Reading members of the document\<close>

definition obj_get :: "json \<Rightarrow> string \<Rightarrow> json option" where
  "obj_get j k = (case j of JObject kvs \<Rightarrow> map_of kvs k | _ \<Rightarrow> None)"

definition obj_del :: "string \<Rightarrow> json \<Rightarrow> json" where
  "obj_del k j = (case j of JObject kvs \<Rightarrow> JObject (filter (\<lambda>kv. fst kv \<noteq> k) kvs) | _ \<Rightarrow> j)"

definition obj_at :: "string \<Rightarrow> (json \<Rightarrow> json) \<Rightarrow> json \<Rightarrow> json" where
  "obj_at k f j =
     (case j of JObject kvs \<Rightarrow> JObject (map (\<lambda>kv. if fst kv = k then (fst kv, f (snd kv)) else kv) kvs)
      | _ \<Rightarrow> j)"

definition property_schema :: "json \<Rightarrow> string \<Rightarrow> json option" where
  "property_schema s p = (case obj_get s ''properties'' of None \<Rightarrow> None | Some ps \<Rightarrow> obj_get ps p)"

definition property_default :: "json \<Rightarrow> string \<Rightarrow> json option" where
  "property_default s p = (case property_schema s p of None \<Rightarrow> None | Some d \<Rightarrow> obj_get d ''default'')"

definition property_names :: "json \<Rightarrow> string list" where
  "property_names s = (case obj_get s ''properties'' of Some (JObject ps) \<Rightarrow> map fst ps | _ \<Rightarrow> [])"

section \<open>Validation of an instance against the schema\<close>

text \<open>
  The schema is in the dialect pydantic emits (JSON Schema draft 7). The validator reads
  the keywords the document uses: \<open>type\<close>, \<open>enum\<close>, \<open>required\<close>, \<open>properties\<close>,
  \<open>additionalProperties\<close>, \<open>items\<close>, \<open>anyOf\<close> and \<open>$ref\<close> into \<open>definitions\<close>;
  \<open>title\<close>, \<open>description\<close>, \<open>default\<close> and \<open>format\<close> are annotations and assert
  nothing. A verdict is \<open>Some True\<close> (valid), \<open>Some False\<close> (invalid) or \<open>None\<close>: no
  verdict, because the fuel that bounds the unfolding of references ran out or the schema
  is outside this fragment. Verdicts combine as in three-valued logic, so that one failed
  keyword makes the instance invalid whatever the others give. As in draft 7, a schema with
  \<open>$ref\<close> is the schema referred to, and its other members are not read.
\<close>

definition kand :: "bool option \<Rightarrow> bool option \<Rightarrow> bool option" where
  "kand a b = (if a = Some False \<or> b = Some False then Some False
               else if a = None \<or> b = None then None else Some True)"

definition kor :: "bool option \<Rightarrow> bool option \<Rightarrow> bool option" where
  "kor a b = (if a = Some True \<or> b = Some True then Some True
              else if a = None \<or> b = None then None else Some False)"

definition kall :: "bool option list \<Rightarrow> bool option" where
  "kall xs = foldr kand xs (Some True)"

definition kany :: "bool option list \<Rightarrow> bool option" where
  "kany xs = foldr kor xs (Some False)"

text \<open>
  A verdict \<open>a\<close> is settled by \<open>b\<close> when \<open>a\<close> is no verdict or the same verdict: more fuel
  may turn no verdict into one, and never changes one.
\<close>

definition settles :: "bool option \<Rightarrow> bool option \<Rightarrow> bool" where
  "settles a b = (a = None \<or> a = b)"

definition known_keywords :: "string list" where
  "known_keywords = [''$ref'', ''title'', ''description'', ''default'', ''format'',
     ''definitions'', ''type'', ''enum'', ''required'', ''properties'',
     ''additionalProperties'', ''items'', ''anyOf'']"

definition is_null :: "json \<Rightarrow> bool" where
  "is_null v = (case v of JNull \<Rightarrow> True | _ \<Rightarrow> False)"

definition is_boolean :: "json \<Rightarrow> bool" where
  "is_boolean v = (case v of JBool _ \<Rightarrow> True | _ \<Rightarrow> False)"

definition is_number :: "json \<Rightarrow> bool" where
  "is_number v = (case v of JNumber _ \<Rightarrow> True | _ \<Rightarrow> False)"

definition is_integer :: "json \<Rightarrow> bool" where
  "is_integer v = (case v of JNumber r \<Rightarrow> r = of_int \<lfloor>r\<rfloor> | _ \<Rightarrow> False)"

definition is_string :: "json \<Rightarrow> bool" where
  "is_string v = (case v of JString _ \<Rightarrow> True | _ \<Rightarrow> False)"

definition is_array :: "json \<Rightarrow> bool" where
  "is_array v = (case v of JArray _ \<Rightarrow> True | _ \<Rightarrow> False)"

definition is_object :: "json \<Rightarrow> bool" where
  "is_object v = (case v of JObject _ \<Rightarrow> True | _ \<Rightarrow> False)"

fun check_type :: "json \<Rightarrow> json \<Rightarrow> bool option" where
  "check_type (JString t) v =
     (if t = ''null'' then Some (is_null v)
      else if t = ''boolean'' then Some (is_boolean v)
      else if t = ''number'' then Some (is_number v)
      else if t = ''integer'' then Some (is_integer v)
      else if t = ''string'' then Some (is_string v)
      else if t = ''array'' then Some (is_array v)
      else if t = ''object'' then Some (is_object v)
      else None)"
| "check_type _ v = None"

fun check_enum :: "json \<Rightarrow> json \<Rightarrow> bool option" where
  "check_enum (JArray vals) v = Some (v \<in> set vals)"
| "check_enum _ v = None"

fun check_required :: "json \<Rightarrow> json \<Rightarrow> bool option" where
  "check_required (JArray names) (JObject kvs) =
     Some (list_all (\<lambda>n. n \<in> set (map (\<lambda>kv. JString (fst kv)) kvs)) names)"
| "check_required (JArray names) v = Some True"
| "check_required _ v = None"

definition declared_properties :: "(string \<times> json) list \<Rightarrow> (string \<times> json) list option" where
  "declared_properties kw =
     (case map_of kw ''properties'' of None \<Rightarrow> Some [] | Some (JObject ps) \<Rightarrow> Some ps
      | Some _ \<Rightarrow> None)"

definition resolve_ref :: "json \<Rightarrow> json \<Rightarrow> json option" where
  "resolve_ref doc r =
     (case r of
        JString p \<Rightarrow>
          if take 14 p = ''#/definitions/''
          then (case obj_get doc ''definitions'' of None \<Rightarrow> None
                | Some ds \<Rightarrow> obj_get ds (drop 14 p))
          else None
      | _ \<Rightarrow> None)"

definition members :: "json \<Rightarrow> (string \<times> json) list" where
  "members v = (case v of JObject kvs \<Rightarrow> kvs | _ \<Rightarrow> [])"

definition elements :: "json \<Rightarrow> json list" where
  "elements v = (case v of JArray xs \<Rightarrow> xs | _ \<Rightarrow> [])"

definition member_schema :: "(string \<times> json) list \<Rightarrow> (string \<times> json) list \<Rightarrow> string \<Rightarrow> json option" where
  "member_schema kw ps k =
     (case map_of ps k of Some sub \<Rightarrow> Some sub | None \<Rightarrow> map_of kw ''additionalProperties'')"

fun validate :: "nat \<Rightarrow> json \<Rightarrow> json \<Rightarrow> json \<Rightarrow> bool option" where
  "validate 0 doc s v = None"
| "validate (Suc n) doc (JBool b) v = Some b"
| "validate (Suc n) doc (JObject kw) v =
     (if \<not> list_all (\<lambda>kv. fst kv \<in> set known_keywords) kw then None
      else case map_of kw ''$ref'' of
        Some r \<Rightarrow>
          (case resolve_ref doc r of None \<Rightarrow> None | Some t \<Rightarrow> validate n doc t v)
      | None \<Rightarrow>
          kall [
            (case map_of kw ''type'' of None \<Rightarrow> Some True | Some t \<Rightarrow> check_type t v),
            (case map_of kw ''enum'' of None \<Rightarrow> Some True | Some e \<Rightarrow> check_enum e v),
            (case map_of kw ''required'' of None \<Rightarrow> Some True | Some r \<Rightarrow> check_required r v),
            (case declared_properties kw of
               None \<Rightarrow> None
             | Some ps \<Rightarrow>
                 kall (map (\<lambda>kv.
                   case member_schema kw ps (fst kv) of
                     None \<Rightarrow> Some True
                   | Some sub \<Rightarrow> validate n doc sub (snd kv)) (members v))),
            (case map_of kw ''items'' of
               None \<Rightarrow> Some True
             | Some it \<Rightarrow> kall (map (\<lambda>x. validate n doc it x) (elements v))),
            (case map_of kw ''anyOf'' of
               None \<Rightarrow> Some True
             | Some (JArray ss) \<Rightarrow> kany (map (\<lambda>s. validate n doc s v) ss)
             | Some _ \<Rightarrow> None)])"
| "validate (Suc n) doc _ v = None"

text \<open>
  The validator decides an instance when it gives a verdict. Whether it will, for every
  instance, can be read off the schema alone: \<open>decides n doc s\<close> holds when \<open>n\<close> steps of
  fuel take the validator through \<open>s\<close> and every schema it refers to, and every keyword on
  the way has the form the validator reads.
\<close>

definition decided :: "bool option \<Rightarrow> bool" where
  "decided a = (a \<noteq> None)"

definition type_names :: "string list" where
  "type_names = [''null'', ''boolean'', ''number'', ''integer'', ''string'', ''array'', ''object'']"

fun decides :: "nat \<Rightarrow> json \<Rightarrow> json \<Rightarrow> bool" where
  "decides 0 doc s = False"
| "decides (Suc n) doc (JBool b) = True"
| "decides (Suc n) doc (JObject kw) =
     (list_all (\<lambda>kv. fst kv \<in> set known_keywords) kw \<and>
      (case map_of kw ''$ref'' of
         Some r \<Rightarrow> (case resolve_ref doc r of None \<Rightarrow> False | Some t \<Rightarrow> decides n doc t)
       | None \<Rightarrow>
           (case map_of kw ''type'' of None \<Rightarrow> True
            | Some t \<Rightarrow> t \<in> set (map JString type_names)) \<and>
           (case map_of kw ''enum'' of None \<Rightarrow> True | Some e \<Rightarrow> is_array e) \<and>
           (case map_of kw ''required'' of None \<Rightarrow> True | Some r \<Rightarrow> is_array r) \<and>
           (case declared_properties kw of None \<Rightarrow> False
            | Some ps \<Rightarrow> list_all (\<lambda>p. decides n doc (snd p)) ps) \<and>
           (case map_of kw ''additionalProperties'' of None \<Rightarrow> True
            | Some a \<Rightarrow> decides n doc a) \<and>
           (case map_of kw ''items'' of None \<Rightarrow> True | Some it \<Rightarrow> decides n doc it) \<and>
           (case map_of kw ''anyOf'' of None \<Rightarrow> True
            | Some (JArray ss) \<Rightarrow> list_all (\<lambda>s. decides n doc s) ss
            | Some _ \<Rightarrow> False)))"
| "decides (Suc n) doc _ = False"

section \<open>Readings of the schema used in the statements\<close>

text \<open>
  The schemas a partitioner may satisfy are the alternatives listed under \<open>anyOf\<close> in the
  \<open>partitioner\<close> property of the batch definition; a variant is active for a partitioner
  object when the object is valid against it.
\<close>

definition partitioner_variants :: "json list" where
  "partitioner_variants =
     (case property_schema BatchDefinition_Union ''partitioner'' of
        None \<Rightarrow> []
      | Some p \<Rightarrow> elements (case obj_get p ''anyOf'' of None \<Rightarrow> JNull | Some a \<Rightarrow> a))"

definition active_variants :: "nat \<Rightarrow> json \<Rightarrow> json list" where
  "active_variants n p = filter (\<lambda>s. validate n JSONAsset s p = Some True) partitioner_variants"

text \<open>
  What is left of a partitioner variant's schema once its title and the default of
  \<open>param_names\<close> are taken away, and once the whole \<open>param_names\<close> property is.
\<close>

definition without_param_default :: "json \<Rightarrow> json" where
  "without_param_default s =
     obj_del ''title'' (obj_at ''properties'' (obj_at ''param_names'' (obj_del ''default'')) s)"

definition without_param_names :: "json \<Rightarrow> json" where
  "without_param_names s = obj_del ''title'' (obj_at ''properties'' (obj_del ''param_names'') s)"

text \<open>
  What the Yearly, Monthly and Daily schemas demand of an instance, and what the Path
  schema demands, written out member by member.
\<close>

definition accepts_dated :: "json \<Rightarrow> bool" where
  "accepts_dated v =
     (is_object v \<and> ''regex'' \<in> set (map fst (members v)) \<and>
      list_all (\<lambda>kv. (fst kv = ''regex'' \<longrightarrow> is_string (snd kv)) \<and>
                      (fst kv = ''sort_ascending'' \<longrightarrow> is_boolean (snd kv)) \<and>
                      (fst kv = ''param_names'' \<longrightarrow> is_array (snd kv))) (members v))"

definition accepts_path :: "json \<Rightarrow> bool" where
  "accepts_path v =
     (is_object v \<and> ''regex'' \<in> set (map fst (members v)) \<and>
      list_all (\<lambda>kv. (fst kv = ''regex'' \<longrightarrow> is_string (snd kv)) \<and>
                      (fst kv = ''sort_ascending'' \<longrightarrow> is_boolean (snd kv))) (members v))"

section \<open>Sorters over partition keys\<close>

text \<open>
  The code that orders partitions is not among the sources; the schema above only declares
  the \<open>Sorter\<close> object. The definitions of this section follow the specification's words.
\<close>

text \<open>
  Modelled from the spec: the partition key, which the sources do not define. It is the
  ordered mapping from field name to captured value that a partitioner extracts from a file
  name.
\<close>

type_synonym partition_key = "(string \<times> string) list"

text \<open>
  Modelled from the spec: the sorter, a field name with a reverse flag. The schema's
  \<open>Sorter\<close> object has the same two members, \<open>key\<close> and \<open>reverse\<close>.
\<close>

record sorter =
  key :: string
  reverse :: bool

text \<open>
  Modelled from the spec: the value of a decimal digit, for the parsing of captured values
  (the sources hold no parsing code).
\<close>

definition digit_value :: "char \<Rightarrow> nat option" where
  "digit_value c = map_of
     [(CHR ''0'', 0), (CHR ''1'', 1), (CHR ''2'', 2), (CHR ''3'', 3), (CHR ''4'', 4),
      (CHR ''5'', 5), (CHR ''6'', 6), (CHR ''7'', 7), (CHR ''8'', 8), (CHR ''9'', 9)] c"

text \<open>
  Modelled from the spec: the number a run of decimal digits denotes, read from the left;
  no number when a character is not a digit.
\<close>

fun parse_digits :: "nat \<Rightarrow> string \<Rightarrow> nat option" where
  "parse_digits acc [] = Some acc"
| "parse_digits acc (c # cs) =
     (case digit_value c of None \<Rightarrow> None | Some d \<Rightarrow> parse_digits (10 * acc + d) cs)"

text \<open>
  Modelled from the spec: whether a captured value parses as an integer, and as which. A
  value parses when it is a non-empty run of decimal digits, with an optional minus sign in
  front.
\<close>

definition parse_int :: "string \<Rightarrow> int option" where
  "parse_int s =
     (case s of
        [] \<Rightarrow> None
      | c # cs \<Rightarrow>
          if c = CHR ''-''
          then (if cs = [] then None else map_option (\<lambda>n. - int n) (parse_digits 0 cs))
          else map_option int (parse_digits 0 s))"

text \<open>
  Modelled from the spec: the integer a key holds for a field; none when the key lacks the
  field or its value does not parse.
\<close>

definition numeric_value :: "string \<Rightarrow> partition_key \<Rightarrow> int option" where
  "numeric_value f k = Option.bind (map_of k f) parse_int"

text \<open>
  Modelled from the spec: whether a field is compared numerically is decided once for the
  field, from all the keys being sorted: numerically where every key's value for the field
  parses as an integer, as strings otherwise.
\<close>

definition numeric_field :: "partition_key list \<Rightarrow> string \<Rightarrow> bool" where
  "numeric_field K f = list_all (\<lambda>k. numeric_value f k \<noteq> None) K"

text \<open>
  Modelled from the spec: the natural order of a field's values, as integers or as strings
  (lexicographic by character code). A key that lacks the field has no value and comes
  before the keys that have one; the specification excludes such sorters when the asset is
  configured.
\<close>

definition field_comparator :: "bool \<Rightarrow> string \<Rightarrow> partition_key comparator" where
  "field_comparator numeric f =
     (if numeric then Comparator.key (numeric_value f) default
      else Comparator.key (\<lambda>k. map_of k f) default)"

text \<open>
  Modelled from the spec: one sorter compares two keys by its field, in the field's natural
  order, and the other way round when its \<open>reverse\<close> flag is set.
\<close>

definition sorter_comparator :: "partition_key list \<Rightarrow> sorter \<Rightarrow> partition_key comparator" where
  "sorter_comparator K s =
     (if reverse s then reversed (field_comparator (numeric_field K (key s)) (key s))
      else field_comparator (numeric_field K (key s)) (key s))"

text \<open>
  Modelled from the spec: one pass of the multi-key sort, a stable sort of the whole list by
  one sorter. The keys \<open>K\<close> are the keys being sorted, from which the comparison of each
  field is decided.
\<close>

definition sort_pass :: "partition_key list \<Rightarrow> sorter \<Rightarrow> partition_key list \<Rightarrow> partition_key list" where
  "sort_pass K s xs = sort (sorter_comparator K s) xs"

text \<open>
  Modelled from the spec: the sorters of an asset are applied in sequence as a multi-key
  sort, each with its own reverse flag. The last sorter's pass runs first, so that the
  first sorter is the primary key.
\<close>

definition sort_partitions :: "sorter list \<Rightarrow> partition_key list \<Rightarrow> partition_key list" where
  "sort_partitions S K = foldr (sort_pass K) S K"

text \<open>
  Modelled from the spec: the lexicographic combination of two comparisons, the second one
  deciding where the first finds its arguments equal.
\<close>

definition then_by :: "'a comparator \<Rightarrow> 'a comparator \<Rightarrow> 'a comparator" where
  "then_by c1 c2 = Comparator.key (\<lambda>x. (x, x)) (prod_lex c1 c2)"

text \<open>
  Modelled from the spec: the comparison of two keys under a sequence of sorters is
  lexicographic: by the first sorter, and by the remaining sorters when the first finds the
  keys equal. With no sorter left, any two keys are equal.
\<close>

fun lexicographic :: "partition_key list \<Rightarrow> sorter list \<Rightarrow> partition_key comparator" where
  "lexicographic K [] = flat"
| "lexicographic K (s # ss) = then_by (sorter_comparator K s) (lexicographic K ss)"

section \<open>Three-valued verdicts\<close>

lemma kall_Nil: "kall [] = Some True"
  by (simp add: kall_def)

lemma kall_Cons: "kall (x # xs) = kand x (kall xs)"
  by (simp add: kall_def)

lemma kany_Nil: "kany [] = Some False"
  by (simp add: kany_def)

lemma kany_Cons: "kany (x # xs) = kor x (kany xs)"
  by (simp add: kany_def)

lemma kand_Some: "kand (Some a) (Some b) = Some (a \<and> b)"
  by (auto simp: kand_def)

lemma kor_Some: "kor (Some a) (Some b) = Some (a \<or> b)"
  by (auto simp: kor_def)

lemma kand_False: "kand (Some False) b = Some False" "kand a (Some False) = Some False"
  by (auto simp: kand_def)

lemma kand_True: "kand (Some True) x = x" "kand x (Some True) = x"
  by (cases x; auto simp: kand_def)+

lemma kall_False: "Some False \<in> set xs \<Longrightarrow> kall xs = Some False"
  by (induction xs) (auto simp: kall_Nil kall_Cons kand_False)

lemma kall_map_Some:
  "(\<And>x. x \<in> set xs \<Longrightarrow> f x = Some (g x)) \<Longrightarrow> kall (map f xs) = Some (list_all g xs)"
  by (induction xs) (auto simp: kall_Nil kall_Cons kand_Some)

lemma kall_map_True: "kall (map (\<lambda>x. Some True) xs) = Some True"
  by (induction xs) (auto simp: kall_Nil kall_Cons kand_Some)

lemmas ksimps = kall_Nil kall_Cons kany_Nil kany_Cons kand_Some kor_Some kand_False kand_True
  kall_map_True

section \<open>Unfolding the validator on the schemas of the document\<close>

lemma member_schema_open:
  "map_of kw ''additionalProperties'' = None \<Longrightarrow> member_schema kw ps k = map_of ps k"
  by (simp add: member_schema_def split: option.splits)

lemma member_schema_closed:
  "map_of kw ''additionalProperties'' = Some a \<Longrightarrow>
   member_schema kw ps k = (case map_of ps k of None \<Rightarrow> Some a | Some s \<Rightarrow> Some s)"
  by (simp add: member_schema_def split: option.splits)

declare validate.simps(3) [simp del]

lemma validate_empty_schema: "validate (Suc n) doc (JObject []) = (\<lambda>v. Some True)"
  by (rule ext) (simp add: validate.simps(3) ksimps declared_properties_def member_schema_open)

lemmas vsimps = validate.simps(3) ksimps known_keywords_def declared_properties_def
  member_schema_open member_schema_closed validate_empty_schema

lemma validate_string_schema:
  "validate (Suc n) doc (JObject [(''title'', t), (''type'', JString ''string'')]) v
     = Some (is_string v)"
  by (simp add: vsimps)

section \<open>A verdict does not change with more fuel\<close>

lemma settles_refl: "settles a a"
  by (simp add: settles_def)

lemma kand_settles: "settles a a' \<Longrightarrow> settles b b' \<Longrightarrow> settles (kand a b) (kand a' b')"
  by (auto simp: settles_def kand_def)

lemma kor_settles: "settles a a' \<Longrightarrow> settles b b' \<Longrightarrow> settles (kor a b) (kor a' b')"
  by (auto simp: settles_def kor_def)

lemma kall_settles:
  "(\<And>x. x \<in> set xs \<Longrightarrow> settles (f x) (g x)) \<Longrightarrow> settles (kall (map f xs)) (kall (map g xs))"
  by (induction xs) (simp_all add: kall_Nil kall_Cons settles_refl kand_settles)

lemma kany_settles:
  "(\<And>x. x \<in> set xs \<Longrightarrow> settles (f x) (g x)) \<Longrightarrow> settles (kany (map f xs)) (kany (map g xs))"
  by (induction xs) (simp_all add: kany_Nil kany_Cons settles_refl kor_settles)

lemma validate_settles: "settles (validate n doc s v) (validate (Suc n) doc s v)"
proof (induction n arbitrary: s v)
  case 0
  show ?case by (simp add: settles_def)
next
  case (Suc n)
  show ?case
  proof (cases s)
    case (JObject kw)
    show ?thesis
    proof (cases "list_all (\<lambda>kv. fst kv \<in> set known_keywords) kw")
      case False
      then show ?thesis by (simp add: JObject validate.simps(3) settles_def)
    next
      case sup: True
      show ?thesis
      proof (cases "map_of kw ''$ref''")
        case (Some r)
        then show ?thesis using sup Suc.IH
          by (cases "resolve_ref doc r") (simp_all add: JObject validate.simps(3) [of _ doc kw v] settles_refl)
      next
        case None
        have p: "settles
           (case declared_properties kw of None \<Rightarrow> None
            | Some ps \<Rightarrow> kall (map (\<lambda>kv. case member_schema kw ps (fst kv) of None \<Rightarrow> Some True
                 | Some sub \<Rightarrow> validate n doc sub (snd kv)) (members v)))
           (case declared_properties kw of None \<Rightarrow> None
            | Some ps \<Rightarrow> kall (map (\<lambda>kv. case member_schema kw ps (fst kv) of None \<Rightarrow> Some True
                 | Some sub \<Rightarrow> validate (Suc n) doc sub (snd kv)) (members v)))"
          by (auto split: option.splits intro!: kall_settles simp: settles_refl Suc.IH)
        have i: "settles
           (case map_of kw ''items'' of None \<Rightarrow> Some True
            | Some it \<Rightarrow> kall (map (\<lambda>x. validate n doc it x) (elements v)))
           (case map_of kw ''items'' of None \<Rightarrow> Some True
            | Some it \<Rightarrow> kall (map (\<lambda>x. validate (Suc n) doc it x) (elements v)))"
          by (auto split: option.splits intro!: kall_settles simp: settles_refl Suc.IH)
        have a: "settles
           (case map_of kw ''anyOf'' of None \<Rightarrow> Some True
            | Some (JArray ss) \<Rightarrow> kany (map (\<lambda>s. validate n doc s v) ss)
            | Some _ \<Rightarrow> None)
           (case map_of kw ''anyOf'' of None \<Rightarrow> Some True
            | Some (JArray ss) \<Rightarrow> kany (map (\<lambda>s. validate (Suc n) doc s v) ss)
            | Some _ \<Rightarrow> None)"
          by (auto split: option.splits json.splits intro!: kany_settles simp: settles_refl Suc.IH)
        show ?thesis
          using sup None
          by (simp add: JObject validate.simps(3) [of _ doc kw v] kall_Cons kall_Nil
              kand_settles settles_refl p i a)
      qed
    qed
  qed (simp_all add: settles_refl)
qed

lemma validate_stable: "validate n doc s v = Some b \<Longrightarrow> validate (n + m) doc s v = Some b"
proof (induction m)
  case 0
  then show ?case by simp
next
  case (Suc m)
  then have "validate (n + m) doc s v = Some b" by simp
  with validate_settles [of "n + m" doc s v] show ?case by (simp add: settles_def)
qed

section \<open>Schemas on which the validator always gives a verdict\<close>

lemma decided_Some: "decided (Some b)"
  by (simp add: decided_def)

lemma kand_decided: "decided a \<Longrightarrow> decided b \<Longrightarrow> decided (kand a b)"
  by (auto simp: kand_def decided_def)

lemma kor_decided: "decided a \<Longrightarrow> decided b \<Longrightarrow> decided (kor a b)"
  by (auto simp: kor_def decided_def)

lemma kall_decided: "(\<And>x. x \<in> set xs \<Longrightarrow> decided (f x)) \<Longrightarrow> decided (kall (map f xs))"
  by (induction xs) (simp_all add: kall_Nil kall_Cons kand_decided decided_Some)

lemma kany_decided: "(\<And>x. x \<in> set xs \<Longrightarrow> decided (f x)) \<Longrightarrow> decided (kany (map f xs))"
  by (induction xs) (simp_all add: kany_Nil kany_Cons kor_decided decided_Some)

lemma check_type_decided: "t \<in> set (map JString type_names) \<Longrightarrow> decided (check_type t v)"
  by (auto simp: type_names_def decided_def)

lemma check_enum_decided: "is_array e \<Longrightarrow> decided (check_enum e v)"
  by (cases e) (simp_all add: is_array_def decided_def)

lemma check_required_decided: "is_array r \<Longrightarrow> decided (check_required r v)"
  by (cases r; cases v) (simp_all add: is_array_def decided_def)

lemma decides_validate: "decides n doc s \<Longrightarrow> decided (validate n doc s v)"
proof (induction n arbitrary: s v)
  case 0
  then show ?case by simp
next
  case (Suc n)
  show ?case
  proof (cases s)
    case (JObject kw)
    with Suc.prems have sup: "list_all (\<lambda>kv. fst kv \<in> set known_keywords) kw"
      by simp
    show ?thesis
    proof (cases "map_of kw ''$ref''")
      case (Some r)
      with Suc.prems JObject obtain t where "resolve_ref doc r = Some t" "decides n doc t"
        by (auto split: option.splits)
      then show ?thesis using sup Some Suc.IH
        by (simp add: JObject validate.simps(3) [of _ doc kw v])
    next
      case None
      from Suc.prems JObject None sup
      have t: "case map_of kw ''type'' of None \<Rightarrow> True | Some t \<Rightarrow> t \<in> set (map JString type_names)"
        and e: "case map_of kw ''enum'' of None \<Rightarrow> True | Some e \<Rightarrow> is_array e"
        and r: "case map_of kw ''required'' of None \<Rightarrow> True | Some r \<Rightarrow> is_array r"
        and p: "case declared_properties kw of None \<Rightarrow> False
            | Some ps \<Rightarrow> list_all (\<lambda>p. decides n doc (snd p)) ps"
        and a: "case map_of kw ''additionalProperties'' of None \<Rightarrow> True | Some a \<Rightarrow> decides n doc a"
        and i: "case map_of kw ''items'' of None \<Rightarrow> True | Some it \<Rightarrow> decides n doc it"
        and y: "case map_of kw ''anyOf'' of None \<Rightarrow> True
            | Some (JArray ss) \<Rightarrow> list_all (\<lambda>s. decides n doc s) ss
            | Some _ \<Rightarrow> False"
        by simp_all
      have 1: "decided (case map_of kw ''type'' of None \<Rightarrow> Some True | Some t \<Rightarrow> check_type t v)"
        using t by (cases "map_of kw ''type''") (simp_all add: decided_Some check_type_decided del: check_type.simps)
      have 2: "decided (case map_of kw ''enum'' of None \<Rightarrow> Some True | Some e \<Rightarrow> check_enum e v)"
        using e by (cases "map_of kw ''enum''") (simp_all add: decided_Some check_enum_decided)
      have 3: "decided (case map_of kw ''required'' of None \<Rightarrow> Some True | Some r \<Rightarrow> check_required r v)"
        using r by (cases "map_of kw ''required''") (simp_all add: decided_Some check_required_decided)
      from p obtain ps where ps: "declared_properties kw = Some ps"
        and dps: "list_all (\<lambda>p. decides n doc (snd p)) ps"
        by (auto split: option.splits)
      have sub: "decides n doc sub" if "member_schema kw ps k = Some sub" for k sub
      proof (cases "map_of ps k")
        case None
        with that a show ?thesis by (simp add: member_schema_def)
      next
        case (Some s')
        with that have "(k, sub) \<in> set ps" by (auto simp: member_schema_def dest: map_of_SomeD)
        with dps show ?thesis by (auto simp: list_all_iff)
      qed
      have "decided (kall (map (\<lambda>kv. case member_schema kw ps (fst kv) of None \<Rightarrow> Some True
                 | Some sub \<Rightarrow> validate n doc sub (snd kv)) (members v)))"
      proof (rule kall_decided)
        fix kv
        show "decided (case member_schema kw ps (fst kv) of None \<Rightarrow> Some True
                 | Some sub \<Rightarrow> validate n doc sub (snd kv))"
          by (cases "member_schema kw ps (fst kv)") (simp_all add: decided_Some sub Suc.IH)
      qed
      then have 4: "decided (case declared_properties kw of None \<Rightarrow> None
            | Some ps \<Rightarrow> kall (map (\<lambda>kv. case member_schema kw ps (fst kv) of None \<Rightarrow> Some True
                 | Some sub \<Rightarrow> validate n doc sub (snd kv)) (members v)))"
        by (simp add: ps)
      have 5: "decided (case map_of kw ''items'' of None \<Rightarrow> Some True
            | Some it \<Rightarrow> kall (map (\<lambda>x. validate n doc it x) (elements v)))"
      proof (cases "map_of kw ''items''")
        case None
        then show ?thesis by (simp add: decided_Some)
      next
        case (Some it)
        with i have "decides n doc it" by simp
        then have "decided (kall (map (\<lambda>x. validate n doc it x) (elements v)))"
          by (intro kall_decided Suc.IH)
        with Some show ?thesis by simp
      qed
      have 6: "decided (case map_of kw ''anyOf'' of None \<Rightarrow> Some True
            | Some (JArray ss) \<Rightarrow> kany (map (\<lambda>s. validate n doc s v) ss)
            | Some _ \<Rightarrow> None)"
      proof (cases "map_of kw ''anyOf''")
        case None
        then show ?thesis by (simp add: decided_Some)
      next
        case (Some a)
        with y obtain ss where ss: "a = JArray ss" "list_all (\<lambda>s. decides n doc s) ss"
          by (cases a) simp_all
        then have "decided (kany (map (\<lambda>s. validate n doc s v) ss))"
          by (intro kany_decided Suc.IH) (simp add: list_all_iff)
        with Some ss show ?thesis by simp
      qed
      show ?thesis
        using sup None 1 2 3 4 5 6
        by (simp add: JObject validate.simps(3) [of _ doc kw v] kall_Cons kall_Nil kand_decided decided_Some)
    qed
  qed (use Suc.prems in \<open>simp_all add: decided_Some\<close>)
qed

lemma decides_JSONAsset: "decides 9 JSONAsset JSONAsset"
  by code_simp

lemma JSONAsset_decided: "decided (validate (9 + n) JSONAsset JSONAsset v)"
proof -
  from decides_JSONAsset have "decided (validate 9 JSONAsset JSONAsset v)"
    by (rule decides_validate)
  then obtain b where "validate 9 JSONAsset JSONAsset v = Some b"
    by (auto simp: decided_def)
  then have "validate (9 + n) JSONAsset JSONAsset v = Some b"
    by (rule validate_stable)
  then show ?thesis by (simp add: decided_def)
qed

section \<open>What the partitioner variants and the batch definition accept\<close>

lemma validate_dated_variant:
  "validate (Suc (Suc (Suc n))) doc
     (JObject [
       (''title'', T),
       (''type'', JString ''object''),
       (''properties'', JObject [
         (''regex'', JObject [
           (''title'', JString ''Regex''),
           (''type'', JString ''string''),
           (''format'', JString ''regex'')]),
         (''sort_ascending'', JObject [
           (''title'', JString ''Sort Ascending''),
           (''default'', JBool True),
           (''type'', JString ''boolean'')]),
         (''param_names'', JObject [
           (''title'', JString ''Param Names''),
           (''default'', d),
           (''type'', JString ''array''),
           (''items'', JObject [])])]),
       (''required'', JArray [JString ''regex''])]) v =
  Some (accepts_dated v)"
  (is "validate _ _ (JObject ?kw) _ = _")
proof -
  have "kall (map (\<lambda>kv. case member_schema ?kw (the (declared_properties ?kw)) (fst kv) of None \<Rightarrow> Some True
         | Some sub \<Rightarrow> validate (Suc (Suc n)) doc sub (snd kv)) (members v))
    = Some (list_all (\<lambda>kv. (fst kv = ''regex'' \<longrightarrow> is_string (snd kv)) \<and>
                      (fst kv = ''sort_ascending'' \<longrightarrow> is_boolean (snd kv)) \<and>
                      (fst kv = ''param_names'' \<longrightarrow> is_array (snd kv))) (members v))"
    by (rule kall_map_Some) (simp add: vsimps)
  then show ?thesis
    by (cases v) (simp_all add: vsimps accepts_dated_def is_object_def members_def image_iff)
qed

lemma validate_Yearly: "validate (Suc (Suc (Suc n))) doc FileNamePartitionerYearly v = Some (accepts_dated v)"
  unfolding FileNamePartitionerYearly_def by (rule validate_dated_variant)

lemma validate_Monthly: "validate (Suc (Suc (Suc n))) doc FileNamePartitionerMonthly v = Some (accepts_dated v)"
  unfolding FileNamePartitionerMonthly_def by (rule validate_dated_variant)

lemma validate_Daily: "validate (Suc (Suc (Suc n))) doc FileNamePartitionerDaily v = Some (accepts_dated v)"
  unfolding FileNamePartitionerDaily_def by (rule validate_dated_variant)

lemma validate_Path:
  "validate (Suc (Suc n)) doc FileNamePartitionerPath v = Some (accepts_path v)"
proof -
  let ?kw = "members FileNamePartitionerPath"
  have "kall (map (\<lambda>kv. case member_schema ?kw (the (declared_properties ?kw)) (fst kv) of None \<Rightarrow> Some True
         | Some sub \<Rightarrow> validate (Suc n) doc sub (snd kv)) (members v))
    = Some (list_all (\<lambda>kv. (fst kv = ''regex'' \<longrightarrow> is_string (snd kv)) \<and>
                      (fst kv = ''sort_ascending'' \<longrightarrow> is_boolean (snd kv))) (members v))"
    by (rule kall_map_Some) (simp add: FileNamePartitionerPath_def members_def vsimps)
  then show ?thesis
    by (cases v) (simp_all add: FileNamePartitionerPath_def vsimps accepts_path_def is_object_def members_def image_iff)
qed

lemma resolve_variants:
  "resolve_ref JSONAsset (JString ''#/definitions/FileNamePartitionerYearly'') = Some FileNamePartitionerYearly"
  "resolve_ref JSONAsset (JString ''#/definitions/FileNamePartitionerMonthly'') = Some FileNamePartitionerMonthly"
  "resolve_ref JSONAsset (JString ''#/definitions/FileNamePartitionerDaily'') = Some FileNamePartitionerDaily"
  "resolve_ref JSONAsset (JString ''#/definitions/FileNamePartitionerPath'') = Some FileNamePartitionerPath"
  by (simp_all add: resolve_ref_def JSONAsset_def obj_get_def)

lemma partitioner_variants_eq:
  "partitioner_variants =
     [JObject [(''$ref'', JString ''#/definitions/FileNamePartitionerYearly'')],
      JObject [(''$ref'', JString ''#/definitions/FileNamePartitionerMonthly'')],
      JObject [(''$ref'', JString ''#/definitions/FileNamePartitionerDaily'')],
      JObject [(''$ref'', JString ''#/definitions/FileNamePartitionerPath'')]]"
  by (simp add: partitioner_variants_def property_schema_def BatchDefinition_Union_def obj_get_def elements_def)

lemma validate_variant_refs:
  "validate (Suc (Suc (Suc (Suc n)))) JSONAsset (JObject [(''$ref'', JString ''#/definitions/FileNamePartitionerYearly'')]) v = Some (accepts_dated v)"
  "validate (Suc (Suc (Suc (Suc n)))) JSONAsset (JObject [(''$ref'', JString ''#/definitions/FileNamePartitionerMonthly'')]) v = Some (accepts_dated v)"
  "validate (Suc (Suc (Suc (Suc n)))) JSONAsset (JObject [(''$ref'', JString ''#/definitions/FileNamePartitionerDaily'')]) v = Some (accepts_dated v)"
  "validate (Suc (Suc (Suc (Suc n)))) JSONAsset (JObject [(''$ref'', JString ''#/definitions/FileNamePartitionerPath'')]) v = Some (accepts_path v)"
  by (simp_all add: validate.simps(3) known_keywords_def resolve_variants validate_Yearly validate_Monthly validate_Daily validate_Path)

lemma accepts_dated_path: "accepts_dated v \<Longrightarrow> accepts_path v"
  by (auto simp: accepts_dated_def accepts_path_def list_all_iff)

lemma active_variants_nonempty:
  "active_variants (Suc (Suc (Suc (Suc n)))) v \<noteq> [] \<longleftrightarrow> accepts_path v"
  using accepts_dated_path [of v]
  by (auto simp add: active_variants_def partitioner_variants_eq validate_variant_refs)

lemma validate_partitioner_property:
  "validate (Suc (Suc (Suc (Suc (Suc n))))) JSONAsset
     (JObject [(''title'', JString ''Partitioner''), (''anyOf'', JArray partitioner_variants)]) v
   = Some (active_variants (Suc (Suc (Suc (Suc n)))) v \<noteq> [])"
  unfolding active_variants_nonempty
  apply (subst validate.simps(3))
  using accepts_dated_path [of v]
  apply (auto simp add: ksimps known_keywords_def declared_properties_def member_schema_open
      partitioner_variants_eq validate_variant_refs)
  done

lemma BatchDefinition_Union_unfold:
  "BatchDefinition_Union = JObject [
     (''title'', JString ''BatchDefinition[Union[FileNamePartitionerYearly, FileNamePartitionerMonthly, FileNamePartitionerDaily, FileNamePartitionerPath]]''),
     (''description'', JString (''Configuration for a batch of data.'' @ [CHR 0x0A] @ [CHR 0x0A] @ ''References the DataAsset to be used, and any additional parameters needed to fetch the data.'')),
     (''type'', JString ''object''),
     (''properties'', JObject [
       (''id'', JObject [(''title'', JString ''Id''), (''type'', JString ''string'')]),
       (''name'', JObject [(''title'', JString ''Name''), (''type'', JString ''string'')]),
       (''partitioner'', JObject [(''title'', JString ''Partitioner''), (''anyOf'', JArray partitioner_variants)])]),
     (''required'', JArray [JString ''name''])]"
  by (simp add: BatchDefinition_Union_def partitioner_variants_eq)

lemma validate_BatchDefinition:
  "validate (Suc (Suc (Suc (Suc (Suc (Suc n)))))) JSONAsset BatchDefinition_Union v =
     Some (is_object v \<and> ''name'' \<in> set (map fst (members v)) \<and>
       list_all (\<lambda>kv. (fst kv = ''id'' \<longrightarrow> is_string (snd kv)) \<and>
                       (fst kv = ''name'' \<longrightarrow> is_string (snd kv)) \<and>
                       (fst kv = ''partitioner'' \<longrightarrow>
                          active_variants (Suc (Suc (Suc (Suc n)))) (snd kv) \<noteq> [])) (members v))"
proof -
  let ?kw = "members BatchDefinition_Union"
  have "kall (map (\<lambda>kv. case member_schema ?kw (the (declared_properties ?kw)) (fst kv) of None \<Rightarrow> Some True
         | Some sub \<Rightarrow> validate (Suc (Suc (Suc (Suc (Suc n))))) JSONAsset sub (snd kv)) (members v))
    = Some (list_all (\<lambda>kv. (fst kv = ''id'' \<longrightarrow> is_string (snd kv)) \<and>
                       (fst kv = ''name'' \<longrightarrow> is_string (snd kv)) \<and>
                       (fst kv = ''partitioner'' \<longrightarrow>
                          active_variants (Suc (Suc (Suc (Suc n)))) (snd kv) \<noteq> [])) (members v))"
    by (rule kall_map_Some)
      (simp add: BatchDefinition_Union_unfold members_def declared_properties_def member_schema_open
         validate_string_schema validate_partitioner_property)
  then show ?thesis
    by (cases v) (simp_all add: BatchDefinition_Union_unfold vsimps is_object_def members_def image_iff)
qed

section \<open>Objects with undeclared or missing members\<close>

lemma validate_closed_object:
  assumes "list_all (\<lambda>kv. fst kv \<in> set known_keywords) kw"
    and "map_of kw ''$ref'' = None"
    and "declared_properties kw = Some ps"
    and "map_of kw ''additionalProperties'' = Some (JBool False)"
    and "(k, x) \<in> set (members v)" and "map_of ps k = None"
  shows "validate (Suc (Suc n)) doc (JObject kw) v = Some False"
proof -
  let ?f = "\<lambda>kv. case member_schema kw ps (fst kv) of None \<Rightarrow> Some True
                  | Some sub \<Rightarrow> validate (Suc n) doc sub (snd kv)"
  have "?f (k, x) = Some False"
    using assms(4,6) by (simp add: member_schema_closed)
  moreover have "?f (k, x) \<in> ?f ` set (members v)"
    using assms(5) by (rule imageI)
  ultimately have "Some False \<in> set (map ?f (members v))"
    by simp
  then have "kall (map ?f (members v)) = Some False"
    by (rule kall_False)
  then show ?thesis
    using assms(1,2,3) by (simp add: validate.simps(3) ksimps)
qed

lemma validate_missing_required:
  assumes "list_all (\<lambda>kv. fst kv \<in> set known_keywords) kw"
    and "map_of kw ''$ref'' = None"
    and "map_of kw ''required'' = Some (JArray names)"
    and "JString k \<in> set names" and "k \<notin> set (map fst kvs)"
  shows "validate (Suc n) doc (JObject kw) (JObject kvs) = Some False"
proof -
  have "check_required (JArray names) (JObject kvs) = Some False"
    using assms(4,5) by (auto simp: list_all_iff)
  then show ?thesis
    using assms(1,2,3) by (simp add: validate.simps(3) ksimps)
qed

lemma JSONAsset_property_names:
  "property_names JSONAsset =
     [''name'', ''type'', ''id'', ''order_by'', ''batch_metadata'', ''batch_definitions'',
      ''connect_options'', ''orient'', ''typ'', ''dtype'', ''convert_axes'', ''convert_dates'',
      ''keep_default_dates'', ''numpy'', ''precise_float'', ''date_unit'', ''encoding'',
      ''encoding_errors'', ''lines'', ''chunksize'', ''compression'', ''nrows'',
      ''storage_options'']"
  by (simp add: property_names_def JSONAsset_def JSONAsset_properties_def obj_get_def)

lemma JSONAsset_keywords:
  "JSONAsset = JObject kw \<Longrightarrow>
     list_all (\<lambda>kv. fst kv \<in> set known_keywords) kw \<and> map_of kw ''$ref'' = None \<and>
     declared_properties kw = Some JSONAsset_properties \<and>
     map_of kw ''additionalProperties'' = Some (JBool False) \<and>
     map_of kw ''required'' = Some (JArray [JString ''name''])"
  by (auto simp add: JSONAsset_def known_keywords_def declared_properties_def)

section \<open>Stable sorting by a sequence of comparators\<close>

lemma compare_then_by:
  "compare (then_by c1 c2) a b =
     (case compare c1 a b of Less \<Rightarrow> Less | Equiv \<Rightarrow> compare c2 a b | Greater \<Rightarrow> Greater)"
  by (simp add: then_by_def compare_prod_lex_apply split: comp.splits)

lemma map_insort_key:
  "map f (insort (Comparator.key f c) x xs) = insort c (f x) (map f xs)"
  by (induction xs) simp_all

lemma map_sort_key: "map f (sort (Comparator.key f c) xs) = sort c (map f xs)"
  by (induction xs) (simp_all add: map_insort_key)

lemma key_dup_fst: "Comparator.key (\<lambda>x. (x, x)) (Comparator.key fst c) = c"
  by (rule compare_inject [THEN iffD1]) (simp add: fun_eq_iff)

lemma key_dup_snd: "Comparator.key (\<lambda>x. (x, x)) (Comparator.key snd c) = c"
  by (rule compare_inject [THEN iffD1]) (simp add: fun_eq_iff)

text \<open>
  Two stable passes, the minor key first, sort by the lexicographic combination: the
  library's fact for the two components of a pair, carried over to two comparators on one
  type by pairing every element with itself.
\<close>

lemma sort_sort_then_by: "sort c1 (sort c2 xs) = sort (then_by c1 c2) xs"
proof -
  let ?d = "\<lambda>x. (x, x)"
  have "map ?d (sort c1 (sort c2 xs)) =
        map ?d (sort (Comparator.key ?d (Comparator.key fst c1))
                 (sort (Comparator.key ?d (Comparator.key snd c2)) xs))"
    by (simp only: key_dup_fst key_dup_snd)
  also have "\<dots> = sort (Comparator.key fst c1) (sort (Comparator.key snd c2) (map ?d xs))"
    by (simp only: map_sort_key)
  also have "\<dots> = sort (prod_lex c1 c2) (map ?d xs)"
    using sort_comp_fst_snd_eq_sort_prod_lex [of c1 c2] by (simp add: fun_eq_iff)
  also have "\<dots> = map ?d (sort (then_by c1 c2) xs)"
    by (simp only: then_by_def map_sort_key)
  finally have "map fst (map ?d (sort c1 (sort c2 xs))) = map fst (map ?d (sort (then_by c1 c2) xs))"
    by simp
  then show ?thesis by (simp add: comp_def)
qed

lemma insort_flat: "insort flat x xs = x # xs"
  by (cases xs) (simp_all add: flat.rep_eq)

lemma sort_flat: "sort flat xs = xs"
  by (induction xs) (simp_all add: insort_flat)

lemma foldr_sort_pass: "foldr (sort_pass K) S xs = sort (lexicographic K S) xs"
  by (induction S) (simp_all add: sort_flat sort_pass_def sort_sort_then_by)

lemma sort_partitions_sort: "sort_partitions S K = sort (lexicographic K S) K"
  by (simp add: sort_partitions_def foldr_sort_pass)

lemma sort_of_sorted: "sorted c xs \<Longrightarrow> sort c xs = xs"
  by (rule sort_eqI) simp_all

lemma numeric_field_set: "set K = set K' \<Longrightarrow> numeric_field K f = numeric_field K' f"
  by (simp add: numeric_field_def list_all_iff)

lemma sorter_comparator_set: "set K = set K' \<Longrightarrow> sorter_comparator K s = sorter_comparator K' s"
  by (simp add: sorter_comparator_def numeric_field_set [of K K'])

lemma lexicographic_set: "set K = set K' \<Longrightarrow> lexicographic K S = lexicographic K' S"
  by (induction S) (simp_all add: sorter_comparator_set [of K K'])

lemmas sort_eval = sort_partitions_def sort_pass_def sorter_comparator_def field_comparator_def
  numeric_field_def numeric_value_def parse_int_def digit_value_def

section \<open>The four partitioner variants\<close>

text \<open>
  Claim C6. The Yearly, Monthly and Daily schemas are the same document once the title and
  the default of \<open>param_names\<close> are taken away; the defaults are \<open>["year"]\<close>,
  \<open>["year", "month"]\<close> and \<open>["year", "month", "day"]\<close>. The Path schema declares no
  \<open>param_names\<close> property, and is the Yearly schema without it. In all four
  \<open>sort_ascending\<close> defaults to true and \<open>regex\<close> is the only required member. A default
  asserts nothing about an instance: the three dated variants accept the same instances, and
  an object holding only a \<open>regex\<close> string is valid against each of the four.
\<close>

theorem partitioner_variants_differ_in_param_default:
  "without_param_default FileNamePartitionerYearly = without_param_default FileNamePartitionerMonthly \<and>
   without_param_default FileNamePartitionerMonthly = without_param_default FileNamePartitionerDaily \<and>
   property_default FileNamePartitionerYearly ''param_names'' = Some (JArray [JString ''year'']) \<and>
   property_default FileNamePartitionerMonthly ''param_names'' =
     Some (JArray [JString ''year'', JString ''month'']) \<and>
   property_default FileNamePartitionerDaily ''param_names'' =
     Some (JArray [JString ''year'', JString ''month'', JString ''day'']) \<and>
   property_schema FileNamePartitionerPath ''param_names'' = None \<and>
   without_param_names FileNamePartitionerYearly = obj_del ''title'' FileNamePartitionerPath \<and>
   list_all (\<lambda>s. property_default s ''sort_ascending'' = Some (JBool True) \<and>
                   obj_get s ''required'' = Some (JArray [JString ''regex'']))
     [FileNamePartitionerYearly, FileNamePartitionerMonthly, FileNamePartitionerDaily,
      FileNamePartitionerPath] \<and>
   (\<forall>n v. validate (Suc (Suc (Suc n))) JSONAsset FileNamePartitionerYearly v =
            validate (Suc (Suc (Suc n))) JSONAsset FileNamePartitionerMonthly v \<and>
          validate (Suc (Suc (Suc n))) JSONAsset FileNamePartitionerMonthly v =
            validate (Suc (Suc (Suc n))) JSONAsset FileNamePartitionerDaily v) \<and>
   (\<forall>n r. list_all (\<lambda>s. validate (Suc (Suc (Suc n))) JSONAsset s (JObject [(''regex'', JString r)]) = Some True)
     [FileNamePartitionerYearly, FileNamePartitionerMonthly, FileNamePartitionerDaily,
      FileNamePartitionerPath])"
proof -
  note defs = FileNamePartitionerYearly_def FileNamePartitionerMonthly_def
    FileNamePartitionerDaily_def FileNamePartitionerPath_def
  have a: "without_param_default FileNamePartitionerYearly = without_param_default FileNamePartitionerMonthly"
    and b: "without_param_default FileNamePartitionerMonthly = without_param_default FileNamePartitionerDaily"
    by (simp_all add: defs without_param_default_def obj_del_def obj_at_def)
  have c: "property_default FileNamePartitionerYearly ''param_names'' = Some (JArray [JString ''year''])"
    and d: "property_default FileNamePartitionerMonthly ''param_names'' =
       Some (JArray [JString ''year'', JString ''month''])"
    and e: "property_default FileNamePartitionerDaily ''param_names'' =
       Some (JArray [JString ''year'', JString ''month'', JString ''day''])"
    and f: "property_schema FileNamePartitionerPath ''param_names'' = None"
    by (simp_all add: defs property_default_def property_schema_def obj_get_def)
  have g: "without_param_names FileNamePartitionerYearly = obj_del ''title'' FileNamePartitionerPath"
    by (simp add: defs without_param_names_def obj_del_def obj_at_def)
  have h: "list_all (\<lambda>s. property_default s ''sort_ascending'' = Some (JBool True) \<and>
                   obj_get s ''required'' = Some (JArray [JString ''regex'']))
     [FileNamePartitionerYearly, FileNamePartitionerMonthly, FileNamePartitionerDaily,
      FileNamePartitionerPath]"
    by (simp add: defs property_default_def property_schema_def obj_get_def)
  have i: "validate (Suc (Suc (Suc n))) JSONAsset FileNamePartitionerYearly v =
            validate (Suc (Suc (Suc n))) JSONAsset FileNamePartitionerMonthly v"
    and i': "validate (Suc (Suc (Suc n))) JSONAsset FileNamePartitionerMonthly v =
            validate (Suc (Suc (Suc n))) JSONAsset FileNamePartitionerDaily v" for n v
    by (simp_all add: validate_Yearly validate_Monthly validate_Daily)
  have j: "list_all (\<lambda>s. validate (Suc (Suc (Suc n))) JSONAsset s (JObject [(''regex'', JString r)]) = Some True)
     [FileNamePartitionerYearly, FileNamePartitionerMonthly, FileNamePartitionerDaily,
      FileNamePartitionerPath]" for n r
    by (simp add: validate_Yearly validate_Monthly validate_Daily validate_Path
        accepts_dated_def accepts_path_def is_object_def members_def is_string_def)
  show ?thesis
    by (intro conjI allI a b c d e f g h i i' j)
qed

theorem partitioner_variants_differ_in_param_default_witness:
  "validate 3 JSONAsset FileNamePartitionerYearly
      (JObject [(''regex'', JString ''a''), (''param_names'', JArray [JString ''day''])]) = Some True \<and>
   validate 3 JSONAsset FileNamePartitionerDaily
      (JObject [(''regex'', JString ''a''), (''param_names'', JArray [JString ''day''])]) = Some True"
proof -
  have three: "(3::nat) = Suc (Suc (Suc 0))" by simp
  have "validate (Suc (Suc (Suc 0))) JSONAsset FileNamePartitionerYearly
      (JObject [(''regex'', JString ''a''), (''param_names'', JArray [JString ''day''])]) = Some True"
    by (simp add: validate_Yearly accepts_dated_def is_object_def members_def is_string_def is_array_def)
  moreover from partitioner_variants_differ_in_param_default
  have "validate (Suc (Suc (Suc 0))) JSONAsset FileNamePartitionerYearly
      (JObject [(''regex'', JString ''a''), (''param_names'', JArray [JString ''day''])]) =
     validate (Suc (Suc (Suc 0))) JSONAsset FileNamePartitionerDaily
      (JObject [(''regex'', JString ''a''), (''param_names'', JArray [JString ''day''])])"
    by simp
  ultimately show ?thesis
    unfolding three by simp
qed

section \<open>Batch definitions and their partitioner\<close>

text \<open>
  Claim C9 says that every batch definition carries exactly one active partitioner variant,
  never none and never several. The schema does not say so. The object
  \<open>{"name": "all_files"}\<close> is a valid batch definition and has no partitioner at all, since
  \<open>name\<close> is the only required member; and the partitioner \<open>{"regex": "data_[0-9]+[.]csv"}\<close>
  of a valid batch definition is valid against all four variant schemas at once, since the
  alternatives are joined by \<open>anyOf\<close> and carry no tag.
\<close>

theorem BatchDefinition_partitioner_not_exactly_one:
  "validate 6 JSONAsset BatchDefinition_Union (JObject [(''name'', JString ''all_files'')]) = Some True \<and>
   obj_get (JObject [(''name'', JString ''all_files'')]) ''partitioner'' = None \<and>
   validate 6 JSONAsset BatchDefinition_Union
     (JObject [(''name'', JString ''by_year''),
               (''partitioner'', JObject [(''regex'', JString ''data_[0-9]+[.]csv'')])]) = Some True \<and>
   length (active_variants 4 (JObject [(''regex'', JString ''data_[0-9]+[.]csv'')])) = 4"
proof -
  have six: "(6::nat) = Suc (Suc (Suc (Suc (Suc (Suc 0)))))" and four: "(4::nat) = Suc (Suc (Suc (Suc 0)))"
    by simp_all
  have p: "accepts_path (JObject [(''regex'', JString ''data_[0-9]+[.]csv'')])"
    and d: "accepts_dated (JObject [(''regex'', JString ''data_[0-9]+[.]csv'')])"
    by (simp_all add: accepts_path_def accepts_dated_def is_object_def members_def is_string_def)
  have a: "active_variants (Suc (Suc (Suc (Suc 0)))) (JObject [(''regex'', JString ''data_[0-9]+[.]csv'')])
      = partitioner_variants"
    by (simp add: active_variants_def partitioner_variants_eq validate_variant_refs p d)
  have b: "length (active_variants 4 (JObject [(''regex'', JString ''data_[0-9]+[.]csv'')])) = 4"
    unfolding four a by (simp add: partitioner_variants_eq)
  show ?thesis
    unfolding six validate_BatchDefinition
    by (simp add: a b partitioner_variants_eq is_object_def members_def is_string_def obj_get_def)
qed

text \<open>
  Claim C9, as the schema has it. A batch definition declares the three properties \<open>id\<close>,
  \<open>name\<close> and \<open>partitioner\<close>. It is an object whose only required member is \<open>name\<close>;
  \<open>id\<close> and \<open>name\<close> are strings, and \<open>id\<close> and \<open>partitioner\<close> may be left out. A
  partitioner that is present must be valid against at least one of the four variant
  schemas (Yearly, Monthly, Daily, Path). The variants are not exclusive: an object with
  only a \<open>regex\<close> string is valid against all four. Anything that is not an object is
  invalid. The verdicts hold for every fuel of six steps or more.
\<close>

theorem BatchDefinition_schema:
  "(\<forall>n kvs. validate (Suc (Suc (Suc (Suc (Suc (Suc n)))))) JSONAsset BatchDefinition_Union (JObject kvs) =
      Some (''name'' \<in> set (map fst kvs) \<and>
            list_all (\<lambda>kv. (fst kv = ''id'' \<longrightarrow> is_string (snd kv)) \<and>
                            (fst kv = ''name'' \<longrightarrow> is_string (snd kv)) \<and>
                            (fst kv = ''partitioner'' \<longrightarrow>
                               active_variants (Suc (Suc (Suc (Suc n)))) (snd kv) \<noteq> [])) kvs)) \<and>
   (\<forall>n v. \<not> is_object v \<longrightarrow>
      validate (Suc n) JSONAsset BatchDefinition_Union v = Some False) \<and>
   (\<forall>n p. set (active_variants (Suc (Suc (Suc (Suc n)))) p) \<subseteq> set partitioner_variants) \<and>
   (\<forall>n r. active_variants (Suc (Suc (Suc (Suc n)))) (JObject [(''regex'', JString r)]) = partitioner_variants) \<and>
   partitioner_variants =
     [JObject [(''$ref'', JString ''#/definitions/FileNamePartitionerYearly'')],
      JObject [(''$ref'', JString ''#/definitions/FileNamePartitionerMonthly'')],
      JObject [(''$ref'', JString ''#/definitions/FileNamePartitionerDaily'')],
      JObject [(''$ref'', JString ''#/definitions/FileNamePartitionerPath'')]] \<and>
   property_names BatchDefinition_Union = [''id'', ''name'', ''partitioner''] \<and>
   obj_get BatchDefinition_Union ''required'' = Some (JArray [JString ''name''])"
proof -
  have a: "validate (Suc (Suc (Suc (Suc (Suc (Suc n)))))) JSONAsset BatchDefinition_Union (JObject kvs) =
      Some (''name'' \<in> set (map fst kvs) \<and>
            list_all (\<lambda>kv. (fst kv = ''id'' \<longrightarrow> is_string (snd kv)) \<and>
                            (fst kv = ''name'' \<longrightarrow> is_string (snd kv)) \<and>
                            (fst kv = ''partitioner'' \<longrightarrow>
                               active_variants (Suc (Suc (Suc (Suc n)))) (snd kv) \<noteq> [])) kvs)" for n kvs
    by (simp add: validate_BatchDefinition is_object_def members_def)
  have b: "validate (Suc n) JSONAsset BatchDefinition_Union v = Some False" if "\<not> is_object v" for n v
    using that by (simp add: BatchDefinition_Union_unfold validate.simps(3) known_keywords_def ksimps kall_False)
  have c: "set (active_variants m p) \<subseteq> set partitioner_variants" for m p
    by (simp add: active_variants_def)
  have d: "active_variants (Suc (Suc (Suc (Suc n)))) (JObject [(''regex'', JString r)]) = partitioner_variants" for n r
    by (simp add: active_variants_def partitioner_variants_eq validate_variant_refs
        accepts_path_def accepts_dated_def is_object_def members_def is_string_def)
  have e: "property_names BatchDefinition_Union = [''id'', ''name'', ''partitioner'']"
    and f: "obj_get BatchDefinition_Union ''required'' = Some (JArray [JString ''name''])"
    by (simp_all add: BatchDefinition_Union_def property_names_def obj_get_def)
  from a b c d partitioner_variants_eq e f show ?thesis by blast
qed

theorem BatchDefinition_schema_witness:
  "validate 6 JSONAsset BatchDefinition_Union
     (JObject [(''id'', JString ''b1''), (''name'', JString ''by_day''),
               (''partitioner'', JObject [(''regex'', JString ''x''), (''param_names'', JNull)])]) = Some True \<and>
   \<not> is_object (JString ''by_day'') \<and>
   validate 1 JSONAsset BatchDefinition_Union (JString ''by_day'') = Some False"
proof -
  have six: "(6::nat) = Suc (Suc (Suc (Suc (Suc (Suc 0)))))" and one: "(1::nat) = Suc 0"
    by simp_all
  have v: "active_variants (Suc (Suc (Suc (Suc 0)))) (JObject [(''regex'', JString ''x''), (''param_names'', JNull)])
     = [JObject [(''$ref'', JString ''#/definitions/FileNamePartitionerPath'')]]"
    by (simp add: active_variants_def partitioner_variants_eq validate_variant_refs
        accepts_path_def accepts_dated_def is_object_def members_def is_string_def is_array_def)
  have n: "\<not> is_object (JString ''by_day'')" by (simp add: is_object_def)
  from BatchDefinition_schema n
  have "validate (Suc 0) JSONAsset BatchDefinition_Union (JString ''by_day'') = Some False"
    by blast
  moreover from BatchDefinition_schema
  have "validate (Suc (Suc (Suc (Suc (Suc (Suc 0)))))) JSONAsset BatchDefinition_Union
     (JObject [(''id'', JString ''b1''), (''name'', JString ''by_day''),
               (''partitioner'', JObject [(''regex'', JString ''x''), (''param_names'', JNull)])]) =
      Some (''name'' \<in> set (map fst [(''id'', JString ''b1''), (''name'', JString ''by_day''),
               (''partitioner'', JObject [(''regex'', JString ''x''), (''param_names'', JNull)])]) \<and>
            list_all (\<lambda>kv. (fst kv = ''id'' \<longrightarrow> is_string (snd kv)) \<and>
                            (fst kv = ''name'' \<longrightarrow> is_string (snd kv)) \<and>
                            (fst kv = ''partitioner'' \<longrightarrow>
                               active_variants (Suc (Suc (Suc (Suc 0)))) (snd kv) \<noteq> []))
              [(''id'', JString ''b1''), (''name'', JString ''by_day''),
               (''partitioner'', JObject [(''regex'', JString ''x''), (''param_names'', JNull)])])"
    by blast
  ultimately show ?thesis
    unfolding six one using n by (simp add: v is_string_def)
qed

section \<open>The JSON asset admits only its declared properties\<close>

text \<open>
  Claim C10. In the schema of the JSON asset \<open>name\<close> is the only required property and
  \<open>additionalProperties\<close> is false: an object with a member that the schema does not
  declare is invalid, whatever else it holds; an object without \<open>name\<close> is invalid; and
  an object with nothing but a \<open>name\<close> string is valid, so no other property is required.
  The declared properties are the twenty-three listed last.
  Every fuel that lets the validator look at the members (two steps) gives these verdicts,
  and with nine steps or more the validator gives a verdict on every instance.
\<close>

theorem JSONAsset_closed:
  "obj_get JSONAsset ''required'' = Some (JArray [JString ''name'']) \<and>
   obj_get JSONAsset ''additionalProperties'' = Some (JBool False) \<and>
   (\<forall>n kvs k. k \<in> set (map fst kvs) \<and> k \<notin> set (property_names JSONAsset) \<longrightarrow>
       validate (Suc (Suc n)) JSONAsset JSONAsset (JObject kvs) = Some False) \<and>
   (\<forall>n kvs. ''name'' \<notin> set (map fst kvs) \<longrightarrow>
       validate (Suc n) JSONAsset JSONAsset (JObject kvs) = Some False) \<and>
   (\<forall>n s. validate (Suc (Suc n)) JSONAsset JSONAsset (JObject [(''name'', JString s)]) = Some True) \<and>
   (\<forall>n v. decided (validate (9 + n) JSONAsset JSONAsset v)) \<and>
   property_names JSONAsset =
     [''name'', ''type'', ''id'', ''order_by'', ''batch_metadata'', ''batch_definitions'',
      ''connect_options'', ''orient'', ''typ'', ''dtype'', ''convert_axes'', ''convert_dates'',
      ''keep_default_dates'', ''numpy'', ''precise_float'', ''date_unit'', ''encoding'',
      ''encoding_errors'', ''lines'', ''chunksize'', ''compression'', ''nrows'',
      ''storage_options'']"
proof -
  obtain kw where kw: "JSONAsset = JObject kw" by (simp add: JSONAsset_def)
  note K = JSONAsset_keywords [OF kw]
  have names: "property_names JSONAsset = map fst JSONAsset_properties"
    by (simp add: property_names_def JSONAsset_def obj_get_def)
  have a: "obj_get JSONAsset ''required'' = Some (JArray [JString ''name''])"
    and b: "obj_get JSONAsset ''additionalProperties'' = Some (JBool False)"
    using K by (simp_all add: kw obj_get_def)
  have c: "validate (Suc (Suc n)) doc JSONAsset (JObject kvs) = Some False"
    if "k \<in> set (map fst kvs)" "k \<notin> set (property_names JSONAsset)" for n kvs k doc
  proof -
    from that(1) obtain x where "(k, x) \<in> set (members (JObject kvs))"
      by (auto simp: members_def)
    moreover from that(2) have "map_of JSONAsset_properties k = None"
      by (simp add: names map_of_eq_None_iff)
    ultimately have "validate (Suc (Suc n)) doc (JObject kw) (JObject kvs) = Some False"
      using K by (intro validate_closed_object [where k = k and x = x and ps = JSONAsset_properties]) simp_all
    then show ?thesis by (simp only: kw)
  qed
  have d: "validate (Suc n) doc JSONAsset (JObject kvs) = Some False"
    if "''name'' \<notin> set (map fst kvs)" for n kvs doc
  proof -
    have "validate (Suc n) doc (JObject kw) (JObject kvs) = Some False"
      using K that by (intro validate_missing_required [where k = "''name''" and names = "[JString ''name'']"]) simp_all
    then show ?thesis by (simp only: kw)
  qed
  have e: "validate (Suc (Suc n)) JSONAsset JSONAsset (JObject [(''name'', JString s)]) = Some True" for n s
    by (simp add: JSONAsset_def JSONAsset_properties_def vsimps members_def elements_def is_object_def is_string_def)
  from a b c d e JSONAsset_decided JSONAsset_property_names show ?thesis by blast
qed

theorem JSONAsset_closed_witness:
  "''delimiter'' \<in> set (map fst [(''name'', JString ''taxi''), (''delimiter'', JString '','')]) \<and>
   ''delimiter'' \<notin> set (property_names JSONAsset) \<and>
   validate (Suc (Suc 0)) JSONAsset JSONAsset
     (JObject [(''name'', JString ''taxi''), (''delimiter'', JString '','')]) = Some False \<and>
   ''name'' \<notin> set (map fst [(''nrows'', JNumber 5)]) \<and>
   validate (Suc 0) JSONAsset JSONAsset (JObject [(''nrows'', JNumber 5)]) = Some False"
proof -
  have m: "''delimiter'' \<in> set (map fst [(''name'', JString ''taxi''), (''delimiter'', JString '','')]) \<and>
      ''delimiter'' \<notin> set (property_names JSONAsset)"
    by (simp add: JSONAsset_property_names)
  have r: "''name'' \<notin> set (map fst [(''nrows'', JNumber 5)])"
    by simp
  from JSONAsset_closed m
  have "validate (Suc (Suc 0)) JSONAsset JSONAsset
     (JObject [(''name'', JString ''taxi''), (''delimiter'', JString '','')]) = Some False"
    by blast
  moreover from JSONAsset_closed r
  have "validate (Suc 0) JSONAsset JSONAsset (JObject [(''nrows'', JNumber 5)]) = Some False"
    by blast
  ultimately show ?thesis using m r by blast
qed

section \<open>Sorting partition keys\<close>

text \<open>
  Claim C2. Applying the sorters in sequence orders the keys by the lexicographic comparison
  over the sorter sequence: the result is the stable sort of the input under that
  comparison, so it is sorted under it, it holds the same keys, and keys that the
  comparison finds equal stay in their input order. The comparison looks at the first
  sorter and goes on to the rest only when the first finds the keys equal; a sorter with
  its \<open>reverse\<close> flag set compares the other way round, and the schema's default for the
  flag is false. With the one sorter \<open>{key: "year", reverse: true}\<close> the keys of the years
  2018, 2020, 2019 come out as 2020, 2019, 2018. Here \<open>sort\<close> and \<open>sorted\<close> are the
  library's stable insertion sort and sortedness under a comparator.
\<close>

theorem sort_partitions_lexicographic:
  "sort_partitions S K = sort (lexicographic K S) K \<and>
   sorted (lexicographic K S) (sort_partitions S K) \<and>
   mset (sort_partitions S K) = mset K \<and>
   (\<forall>k. filter (\<lambda>x. compare (lexicographic K S) k x = Equiv) (sort_partitions S K) =
        filter (\<lambda>x. compare (lexicographic K S) k x = Equiv) K) \<and>
   (\<forall>a b. compare (lexicographic K []) a b = Equiv) \<and>
   (\<forall>s ss a b. compare (lexicographic K (s # ss)) a b =
      (case compare (sorter_comparator K s) a b of
         Less \<Rightarrow> Less | Equiv \<Rightarrow> compare (lexicographic K ss) a b | Greater \<Rightarrow> Greater)) \<and>
   (\<forall>f a b. compare (sorter_comparator K \<lparr>key = f, reverse = True\<rparr>) a b =
            compare (sorter_comparator K \<lparr>key = f, reverse = False\<rparr>) b a) \<and>
   property_default Sorter ''reverse'' = Some (JBool False) \<and>
   sort_partitions [\<lparr>key = ''year'', reverse = True\<rparr>]
       [[(''year'', ''2018'')], [(''year'', ''2020'')], [(''year'', ''2019'')]] =
     [[(''year'', ''2020'')], [(''year'', ''2019'')], [(''year'', ''2018'')]]"
proof -
  have a: "sort_partitions S K = sort (lexicographic K S) K"
    by (rule sort_partitions_sort)
  have b: "sorted (lexicographic K S) (sort_partitions S K)"
    by (simp add: a)
  have c: "mset (sort_partitions S K) = mset K"
    by (simp add: a)
  have d: "filter (\<lambda>x. compare (lexicographic K S) k x = Equiv) (sort_partitions S K) =
        filter (\<lambda>x. compare (lexicographic K S) k x = Equiv) K" for k
    unfolding a by (rule stable_sort)
  have e: "compare (lexicographic K []) a b = Equiv" for a b
    by (simp add: flat.rep_eq)
  have f: "compare (lexicographic K (s # ss)) a b =
      (case compare (sorter_comparator K s) a b of
         Less \<Rightarrow> Less | Equiv \<Rightarrow> compare (lexicographic K ss) a b | Greater \<Rightarrow> Greater)" for s ss a b
    by (simp add: compare_then_by)
  have g: "compare (sorter_comparator K \<lparr>key = f, reverse = True\<rparr>) a b =
            compare (sorter_comparator K \<lparr>key = f, reverse = False\<rparr>) b a" for f a b
    by (simp add: sorter_comparator_def)
  have h: "property_default Sorter ''reverse'' = Some (JBool False)"
    by (simp add: Sorter_def property_default_def property_schema_def obj_get_def)
  have i: "sort_partitions [\<lparr>key = ''year'', reverse = True\<rparr>]
       [[(''year'', ''2018'')], [(''year'', ''2020'')], [(''year'', ''2019'')]] =
     [[(''year'', ''2020'')], [(''year'', ''2019'')], [(''year'', ''2018'')]]"
    by (simp add: sort_eval)
  show ?thesis
    by (intro conjI allI a b c d e f g h i)
qed

theorem sort_partitions_lexicographic_witness:
  "sort_partitions [\<lparr>key = ''year'', reverse = False\<rparr>, \<lparr>key = ''month'', reverse = True\<rparr>]
     [[(''year'', ''2020''), (''month'', ''01''), (''day'', ''b'')],
      [(''year'', ''2019''), (''month'', ''02''), (''day'', ''a'')],
      [(''year'', ''2019''), (''month'', ''11''), (''day'', ''z'')],
      [(''year'', ''2019''), (''month'', ''11''), (''day'', ''c'')]]
   = [[(''year'', ''2019''), (''month'', ''11''), (''day'', ''z'')],
      [(''year'', ''2019''), (''month'', ''11''), (''day'', ''c'')],
      [(''year'', ''2019''), (''month'', ''02''), (''day'', ''a'')],
      [(''year'', ''2020''), (''month'', ''01''), (''day'', ''b'')]]
   \<and> mset (sort_partitions [\<lparr>key = ''year'', reverse = False\<rparr>, \<lparr>key = ''month'', reverse = True\<rparr>]
     [[(''year'', ''2020''), (''month'', ''01''), (''day'', ''b'')],
      [(''year'', ''2019''), (''month'', ''02''), (''day'', ''a'')],
      [(''year'', ''2019''), (''month'', ''11''), (''day'', ''z'')],
      [(''year'', ''2019''), (''month'', ''11''), (''day'', ''c'')]])
   = mset [[(''year'', ''2020''), (''month'', ''01''), (''day'', ''b'')],
      [(''year'', ''2019''), (''month'', ''02''), (''day'', ''a'')],
      [(''year'', ''2019''), (''month'', ''11''), (''day'', ''z'')],
      [(''year'', ''2019''), (''month'', ''11''), (''day'', ''c'')]]"
proof -
  have "sort_partitions [\<lparr>key = ''year'', reverse = False\<rparr>, \<lparr>key = ''month'', reverse = True\<rparr>]
     [[(''year'', ''2020''), (''month'', ''01''), (''day'', ''b'')],
      [(''year'', ''2019''), (''month'', ''02''), (''day'', ''a'')],
      [(''year'', ''2019''), (''month'', ''11''), (''day'', ''z'')],
      [(''year'', ''2019''), (''month'', ''11''), (''day'', ''c'')]]
   = [[(''year'', ''2019''), (''month'', ''11''), (''day'', ''z'')],
      [(''year'', ''2019''), (''month'', ''11''), (''day'', ''c'')],
      [(''year'', ''2019''), (''month'', ''02''), (''day'', ''a'')],
      [(''year'', ''2020''), (''month'', ''01''), (''day'', ''b'')]]"
    by (simp add: sort_eval)
  moreover note sort_partitions_lexicographic
    [of "[\<lparr>key = ''year'', reverse = False\<rparr>, \<lparr>key = ''month'', reverse = True\<rparr>]"
        "[[(''year'', ''2020''), (''month'', ''01''), (''day'', ''b'')],
      [(''year'', ''2019''), (''month'', ''02''), (''day'', ''a'')],
      [(''year'', ''2019''), (''month'', ''11''), (''day'', ''z'')],
      [(''year'', ''2019''), (''month'', ''11''), (''day'', ''c'')]]", THEN conjunct2, THEN conjunct2, THEN conjunct1]
  ultimately show ?thesis by (intro conjI)
qed

text \<open>
  Claim C8. Sorting is idempotent: sorting the sorted keys again by the same sorters gives
  the same sequence, for every sorter sequence and every sequence of keys.
\<close>

theorem sort_partitions_idempotent:
  "sort_partitions S (sort_partitions S K) = sort_partitions S K"
proof -
  have "set (sort_partitions S K) = set K"
    by (simp add: sort_partitions_sort)
  then have "lexicographic (sort_partitions S K) S = lexicographic K S"
    by (rule lexicographic_set)
  then show ?thesis
    by (simp add: sort_partitions_sort sort_of_sorted)
qed

theorem sort_partitions_idempotent_witness:
  "sort_partitions [\<lparr>key = ''name'', reverse = False\<rparr>]
     (sort_partitions [\<lparr>key = ''name'', reverse = False\<rparr>]
        [[(''name'', ''b'')], [(''name'', ''10'')], [(''name'', ''9'')]])
   = [[(''name'', ''10'')], [(''name'', ''9'')], [(''name'', ''b'')]]"
proof -
  have "sort_partitions [\<lparr>key = ''name'', reverse = False\<rparr>]
        [[(''name'', ''b'')], [(''name'', ''10'')], [(''name'', ''9'')]]
     = [[(''name'', ''10'')], [(''name'', ''9'')], [(''name'', ''b'')]]"
    by (simp add: sort_eval)
  with sort_partitions_idempotent
    [of "[\<lparr>key = ''name'', reverse = False\<rparr>]" "[[(''name'', ''b'')], [(''name'', ''10'')], [(''name'', ''9'')]]"]
  show ?thesis by simp
qed

end
